theory Spec2Isabelle
  imports Complex_Main "HOL-Library.Multiset"
begin

section \<open>The rule-based interview engine of \<^verbatim>\<open>server/openai.ts\<close>\<close>

text \<open>
  The module generates interview questions from a job description, produces a follow-up
  question with feedback after each answer, and aggregates all answers into a performance
  report. Each exported operation is an \<^verbatim>\<open>async\<close> function whose whole body is a
  \<^verbatim>\<open>try\<close> block with a \<^verbatim>\<open>catch\<close> that returns a fixed fallback value.

  Conventions of the embedding:
  \<^item> a JavaScript string is a \<open>string\<close>; a \<open>char\<close> stands for one UTF-16 code unit in the
    range 0..255 (ASCII and Latin-1);
  \<^item> a JavaScript number that is always an integer (a per-question score, a count) is an
    \<open>int\<close> or a \<open>nat\<close>; the scores of a report, which may be \<^verbatim>\<open>NaN\<close>, are values of the
    datatype \<open>number\<close>, with finite doubles idealised as rationals;
  \<^item> a call of \<^verbatim>\<open>Math.random()\<close> is a parameter of the function that makes it;
  \<^item> an exception is the \<open>Inl\<close> side of a sum type, a returned value the \<open>Inr\<close> side;
  \<^item> the \<^verbatim>\<open>async\<close> wrapping of the results and the logging of a caught error by
    \<^verbatim>\<open>console.error\<close> are left out.
\<close>

subsection \<open>Strings\<close>

text \<open>\<^verbatim>\<open>String.prototype.toLowerCase\<close> on code units below 256: the letters A..Z and the
  Latin-1 capitals U+00C0..U+00DE (without the multiplication sign U+00D7) move up by 32.\<close>

definition toLowerChar :: "char \<Rightarrow> char" where
  "toLowerChar c =
     (let n = (of_char c :: nat)
      in if (65 \<le> n \<and> n \<le> 90) \<or> (192 \<le> n \<and> n \<le> 222 \<and> n \<noteq> 215)
         then char_of (n + 32) else c)"

definition toLowerCase :: "string \<Rightarrow> string" where
  "toLowerCase s = map toLowerChar s"

text \<open>\<open>startsWith s k\<close>: the string \<open>k\<close> occurs in \<open>s\<close> at position 0.\<close>

fun startsWith :: "string \<Rightarrow> string \<Rightarrow> bool" where
  "startsWith s [] = True"
| "startsWith [] (k # ks) = False"
| "startsWith (c # cs) (k # ks) = (c = k \<and> startsWith cs ks)"

text \<open>\<^verbatim>\<open>s.includes(k)\<close>: \<open>k\<close> occurs in \<open>s\<close> at some position; the empty string occurs in
  every string.\<close>

fun includes_str :: "string \<Rightarrow> string \<Rightarrow> bool" where
  "includes_str [] k = (k = [])"
| "includes_str (c # cs) k = (startsWith (c # cs) k \<or> includes_str cs k)"

text \<open>The white space class \<^verbatim>\<open>\s\<close> of a regular expression, on code units below 256:
  tab, line feed, vertical tab, form feed, carriage return, space, no-break space.\<close>

definition isSpace :: "char \<Rightarrow> bool" where
  "isSpace c = ((of_char c :: nat) \<in> {9, 10, 11, 12, 13, 32, 160})"

text \<open>\<^verbatim>\<open>s.split(/\s+/)\<close>: the pieces of \<open>s\<close> between the maximal runs of white space. A run
  at the start or at the end of \<open>s\<close> has an empty piece on its outer side, and the empty
  string splits into one empty piece.\<close>

function split_ws :: "string \<Rightarrow> string list" where
  "split_ws [] = [[]]"
| "split_ws (c # cs) =
     (if isSpace c then [] # split_ws (dropWhile isSpace cs)
      else (case split_ws cs of t # ts \<Rightarrow> (c # t) # ts | [] \<Rightarrow> [[c]]))"
  by pat_completeness auto
termination
  by (relation "measure length") (auto simp: less_Suc_eq_le length_dropWhile_le)

subsection \<open>Keyword extraction\<close>

definition commonKeywords :: "string list" where
  "commonKeywords =
    [''javascript'', ''typescript'', ''python'', ''java'', ''c++'', ''react'', ''angular'',
     ''vue'', ''node'', ''express'', ''django'', ''flask'', ''spring'', ''docker'', ''kubernetes'',
     ''aws'', ''azure'', ''gcp'', ''cloud'', ''database'', ''sql'', ''nosql'', ''mongodb'',
     ''leadership'', ''management'', ''communication'', ''teamwork'', ''problem-solving'',
     ''analytics'', ''data'', ''machine learning'', ''ai'', ''agile'', ''scrum'', ''devops'',
     ''frontend'', ''backend'', ''fullstack'', ''mobile'', ''android'', ''ios'', ''testing'',
     ''qa'', ''security'', ''networking'', ''infrastructure'', ''architecture'', ''design'',
     ''user experience'', ''ui'', ''ux'', ''product management'', ''project management'']"

definition genericKeywords :: "string list" where
  "genericKeywords = [''experience'', ''skills'', ''projects'', ''challenges'']"

text \<open>\<^verbatim>\<open>extractKeywords(description)\<close>: the vocabulary terms that occur in the description,
  in vocabulary order; the four generic terms are pushed behind them when fewer than three
  were found.\<close>

definition extractKeywords :: "string \<Rightarrow> string list" where
  "extractKeywords description =
     (let foundKeywords = filter (\<lambda>keyword. includes_str description keyword) commonKeywords
      in if length foundKeywords < 3 then foundKeywords @ genericKeywords
         else foundKeywords)"

subsection \<open>Answer analysis\<close>

text \<open>An entry of \<^verbatim>\<open>interviewData\<close>, \<^verbatim>\<open>{ question; answer; feedback? }\<close>, and an entry of the
  analysis, \<^verbatim>\<open>{ question; score; feedback }\<close>. The answer of an entry is a \<open>string\<close>, as
  declared; the type is a parameter of the record for the entries whose answer is missing at
  run time (see the operations on run-time values below).\<close>

record 'a interview_item =
  item_question :: string
  item_answer :: 'a
  item_feedback :: "string option"

record question_analysis =
  qa_question :: string
  qa_score :: int
  qa_feedback :: string

text \<open>The number of job keywords that occur in the (lower-cased) answer:
  \<^verbatim>\<open>jobKeywords.filter(keyword => answer.includes(keyword)).length\<close>.\<close>

definition keywordMentions :: "string list \<Rightarrow> string \<Rightarrow> nat" where
  "keywordMentions jobKeywords answer =
     length (filter (\<lambda>keyword. includes_str answer keyword) jobKeywords)"

text \<open>\<^verbatim>\<open>answer.split(/\s+/).length\<close>.\<close>

definition wordCount :: "string \<Rightarrow> nat" where
  "wordCount answer = length (split_ws answer)"

text \<open>The two adjustments of the base score: the first \<^verbatim>\<open>if\<close> chain of the callback of
  \<^verbatim>\<open>analyzeAnswers\<close> adds to the score by keyword mentions, the second by answer length.\<close>

definition keywordAdjustment :: "nat \<Rightarrow> int" where
  "keywordAdjustment mentions =
     (if mentions > 3 then 15
      else if mentions > 1 then 10
      else if mentions > 0 then 5
      else 0)"

definition lengthAdjustment :: "nat \<Rightarrow> int" where
  "lengthAdjustment wc =
     (if wc > 150 then 10
      else if wc > 100 then 5
      else if wc < 20 then - 15
      else if wc < 50 then - 5
      else 0)"

text \<open>The feedback sentence chosen by the final score.\<close>

definition scoreFeedback :: "int \<Rightarrow> string" where
  "scoreFeedback score =
     (if score \<ge> 90 then ''Excellent answer with specific details and relevant skills.''
      else if score \<ge> 80 then ''Strong answer demonstrating good knowledge and experience.''
      else if score \<ge> 70 then
        ''Good answer with some relevant points, but could include more specific examples.''
      else if score \<ge> 60 then ''Adequate answer, but lacks depth and concrete examples.''
      else ''Answer needs improvement - provide more details and specific examples.'')"

text \<open>The callback of \<^verbatim>\<open>interviewData.map\<close> in \<^verbatim>\<open>analyzeAnswers\<close>: base score 70, the two
  adjustments, \<^verbatim>\<open>Math.max(0, Math.min(100, score))\<close>, then the feedback.\<close>

definition analyzeItem :: "string list \<Rightarrow> string interview_item \<Rightarrow> question_analysis" where
  "analyzeItem jobKeywords item =
     (let answer = toLowerCase (item_answer item);
          mentions = keywordMentions jobKeywords answer;
          wc = wordCount answer;
          score = 70 + keywordAdjustment mentions + lengthAdjustment wc;
          score = max 0 (min 100 score)
      in \<lparr>qa_question = item_question item, qa_score = score,
          qa_feedback = scoreFeedback score\<rparr>)"

definition analyzeAnswers ::
  "string interview_item list \<Rightarrow> string list \<Rightarrow> question_analysis list" where
  "analyzeAnswers interviewData jobKeywords = map (analyzeItem jobKeywords) interviewData"

text \<open>The scoring rule as the specification words it: one keyword bracket and one word-count
  bracket are added to the base 70, and the sum is clamped to the interval from 0 to 100.\<close>

definition spec_keyword_bracket :: "nat \<Rightarrow> int" where
  "spec_keyword_bracket mentions =
     (if mentions > 3 then 15
      else if 2 \<le> mentions \<and> mentions \<le> 3 then 10
      else if mentions = 1 then 5
      else 0)"

definition spec_wordcount_bracket :: "nat \<Rightarrow> int" where
  "spec_wordcount_bracket wc =
     (if wc > 150 then 10
      else if 100 < wc \<and> wc \<le> 150 then 5
      else if wc < 20 then - 15
      else if 20 \<le> wc \<and> wc < 50 then - 5
      else 0)"

definition spec_clamp :: "int \<Rightarrow> int" where
  "spec_clamp x = (if x < 0 then 0 else if x > 100 then 100 else x)"

definition spec_score :: "string list \<Rightarrow> string \<Rightarrow> int" where
  "spec_score keywords answer =
     spec_clamp (70
       + spec_keyword_bracket
           (length (filter (\<lambda>keyword. includes_str (toLowerCase answer) keyword) keywords))
       + spec_wordcount_bracket (length (split_ws (toLowerCase answer))))"

subsection \<open>Numbers\<close>

text \<open>The values a JavaScript number takes in the report: a finite value, the two infinities
  and \<^verbatim>\<open>NaN\<close>. A call of \<^verbatim>\<open>Math.random()\<close> returns a number \<open>r\<close> with \<open>0 \<le> r < 1\<close>: a draw
  is given by any rational and read as its fractional part, so that every value of that
  interval and no other can be drawn.\<close>

datatype number = Fin rat | PosInf | NegInf | NaN

definition Math_random :: "rat \<Rightarrow> rat" where
  "Math_random draw = frac draw"

text \<open>\<^verbatim>\<open>x / y\<close> for finite \<open>x\<close> and \<open>y\<close>: division by zero raises nothing, it gives \<^verbatim>\<open>NaN\<close> for
  \<^verbatim>\<open>0 / 0\<close> and an infinity otherwise.\<close>

definition js_divide :: "rat \<Rightarrow> rat \<Rightarrow> number" where
  "js_divide x y =
     (if y \<noteq> 0 then Fin (x / y)
      else if x = 0 then NaN
      else if 0 < x then PosInf else NegInf)"

text \<open>\<^verbatim>\<open>x * y\<close> for a finite \<open>y\<close>.\<close>

fun js_times :: "number \<Rightarrow> rat \<Rightarrow> number" where
  "js_times (Fin x) y = Fin (x * y)"
| "js_times PosInf y = (if 0 < y then PosInf else if y < 0 then NegInf else NaN)"
| "js_times NegInf y = (if 0 < y then NegInf else if y < 0 then PosInf else NaN)"
| "js_times NaN y = NaN"

text \<open>\<^verbatim>\<open>Math.round(x)\<close> rounds to the nearest integer, a tie upwards.\<close>

fun Math_round :: "number \<Rightarrow> number" where
  "Math_round (Fin x) = Fin (of_int \<lfloor>x + 1 / 2\<rfloor>)"
| "Math_round PosInf = PosInf"
| "Math_round NegInf = NegInf"
| "Math_round NaN = NaN"

text \<open>\<^verbatim>\<open>Math.min(c, x)\<close> for a finite \<open>c\<close>, and the comparisons \<^verbatim>\<open>x >= c\<close> and \<^verbatim>\<open>x < c\<close>, which
  are both false for \<^verbatim>\<open>NaN\<close>.\<close>

fun Math_min :: "rat \<Rightarrow> number \<Rightarrow> number" where
  "Math_min c (Fin x) = Fin (min c x)"
| "Math_min c PosInf = Fin c"
| "Math_min c NegInf = NegInf"
| "Math_min c NaN = NaN"

fun js_ge :: "number \<Rightarrow> rat \<Rightarrow> bool" where
  "js_ge (Fin x) c = (x \<ge> c)"
| "js_ge PosInf c = True"
| "js_ge NegInf c = False"
| "js_ge NaN c = False"

fun js_lt :: "number \<Rightarrow> rat \<Rightarrow> bool" where
  "js_lt (Fin x) c = (x < c)"
| "js_lt PosInf c = False"
| "js_lt NegInf c = True"
| "js_lt NaN c = False"

text \<open>\<^verbatim>\<open>Math.floor(Math.random() * n)\<close>, an index into an array of length \<open>n\<close>. It is below
  \<open>n\<close> when \<open>n\<close> is positive (lemma \<open>randomIndex_less\<close>), and the module reads only
  non-empty arrays at such an index.\<close>

definition randomIndex :: "rat \<Rightarrow> nat \<Rightarrow> nat" where
  "randomIndex draw n = nat \<lfloor>Math_random draw * of_nat n\<rfloor>"

subsection \<open>Score aggregation\<close>

record scores =
  overall :: number
  technical :: number
  communication :: number
  problemSolving :: number

text \<open>\<^verbatim>\<open>calculateScores\<close>: the overall score is the rounded mean of the question scores; each
  of the other three is the overall score times a random factor, rounded and capped at 100.
  The three draws are the parameters \<open>rt\<close>, \<open>rc\<close> and \<open>rp\<close>, in the order of the calls.\<close>

definition calculateScores ::
  "rat \<Rightarrow> rat \<Rightarrow> rat \<Rightarrow> question_analysis list \<Rightarrow> string list \<Rightarrow> scores" where
  "calculateScores rt rc rp questionAnalysis jobKeywords =
     (let overallScore = Math_round
            (js_divide (of_int (foldl (\<lambda>sum item. sum + qa_score item) 0 questionAnalysis))
                       (of_nat (length questionAnalysis)));
          technicalScore = Math_min 100
            (Math_round (js_times overallScore (Math_random rt * (2 / 10) + 9 / 10)));
          communicationScore = Math_min 100
            (Math_round (js_times overallScore (Math_random rc * (2 / 10) + 9 / 10)));
          problemSolvingScore = Math_min 100
            (Math_round (js_times overallScore (Math_random rp * (2 / 10) + 8 / 10)))
      in \<lparr>overall = overallScore, technical = technicalScore,
          communication = communicationScore, problemSolving = problemSolvingScore\<rparr>)"

subsection \<open>Strengths, improvements and recommendations\<close>

text \<open>The loop that closes \<^verbatim>\<open>identifyStrengths\<close>, \<^verbatim>\<open>identifyImprovements\<close> and
  \<^verbatim>\<open>generateRecommendations\<close>: while the list has fewer than three entries, \<^verbatim>\<open>shift()\<close> takes
  the first entry of the generic pool and pushes it; the loop breaks when the pool is empty
  (\<^verbatim>\<open>shift()\<close> gives \<^verbatim>\<open>undefined\<close>) or the entry is the empty string, which is falsy too.\<close>

fun fillFromGeneric :: "string list \<Rightarrow> string list \<Rightarrow> string list" where
  "fillFromGeneric entries [] = entries"
| "fillFromGeneric entries (g # generic) =
     (if length entries < 3
      then (if g \<noteq> [] then fillFromGeneric (entries @ [g]) generic else entries)
      else entries)"

definition genericStrengths :: "string list" where
  "genericStrengths =
    [''Showed enthusiasm for the role'',
     ''Articulated past experiences well'',
     ''Demonstrated a positive attitude'',
     ''Presented professional demeanor during the interview'']"

text \<open>\<^verbatim>\<open>identifyStrengths\<close> in its two parts: the strengths pushed by the threshold rules, then
  the loop that fills the list from the generic pool.\<close>

definition thresholdStrengths :: "question_analysis list \<Rightarrow> scores \<Rightarrow> string list" where
  "thresholdStrengths questionAnalysis sc =
     (let highScoreQuestions = filter (\<lambda>item. qa_score item \<ge> 80) questionAnalysis
      in (if length highScoreQuestions > 0
          then [''Provided detailed and relevant answers to multiple questions''] else [])
         @ (if js_ge (technical sc) 75
            then [''Demonstrated good technical knowledge relevant to the position''] else [])
         @ (if js_ge (communication sc) 75
            then [''Communicated ideas clearly and effectively''] else [])
         @ (if js_ge (problemSolving sc) 75
            then [''Showed strong problem-solving abilities''] else []))"

definition identifyStrengths :: "question_analysis list \<Rightarrow> scores \<Rightarrow> string list" where
  "identifyStrengths questionAnalysis sc =
     fillFromGeneric (thresholdStrengths questionAnalysis sc) genericStrengths"

definition genericImprovements :: "string list" where
  "genericImprovements =
    [''Quantify achievements with metrics when possible'',
     ''Research the company more thoroughly before the interview'',
     ''Prepare more concise responses to common questions'',
     ''Practice the STAR method (Situation, Task, Action, Result) for behavioral questions'']"

definition thresholdImprovements :: "question_analysis list \<Rightarrow> scores \<Rightarrow> string list" where
  "thresholdImprovements questionAnalysis sc =
     (let lowScoreQuestions = filter (\<lambda>item. qa_score item \<le> 65) questionAnalysis
      in (if length lowScoreQuestions > 0
          then [''Provide more detailed responses with specific examples''] else [])
         @ (if js_lt (technical sc) 75
            then [''Highlight technical skills more clearly in answers''] else [])
         @ (if js_lt (communication sc) 75
            then [''Structure answers more clearly with a beginning, middle, and conclusion'']
            else [])
         @ (if js_lt (problemSolving sc) 75
            then [''Include more examples of problem-solving in responses''] else []))"

definition identifyImprovements :: "question_analysis list \<Rightarrow> scores \<Rightarrow> string list" where
  "identifyImprovements questionAnalysis sc =
     fillFromGeneric (thresholdImprovements questionAnalysis sc) genericImprovements"

text \<open>The object literal \<^verbatim>\<open>recommendationMap\<close>, as an association list. A lookup
  \<^verbatim>\<open>recommendationMap[improvement]\<close> in the object also finds the properties that every object
  inherits, whose names are listed in \<open>inheritedProperties\<close>: for these names the code yields a
  function and not a string, and the association list models the lookup for all other strings
  only. No improvement that \<open>identifyImprovements\<close> returns is such a name (lemma
  \<open>identifyImprovements_mapped\<close>).\<close>

definition inheritedProperties :: "string list" where
  "inheritedProperties =
    [''constructor'', ''hasOwnProperty'', ''isPrototypeOf'', ''propertyIsEnumerable'',
     ''toLocaleString'', ''toString'', ''valueOf'', ''__proto__'', ''__defineGetter__'',
     ''__defineSetter__'', ''__lookupGetter__'', ''__lookupSetter__'']"

definition recommendationMap :: "(string \<times> string) list" where
  "recommendationMap =
    [(''Provide more detailed responses with specific examples'',
      ''Practice answering questions using the STAR method to provide structured examples''),
     (''Highlight technical skills more clearly in answers'',
      ''Create a list of your technical skills with specific project examples for each''),
     (''Structure answers more clearly with a beginning, middle, and conclusion'',
      ''Record yourself answering practice questions and review for clarity and structure''),
     (''Include more examples of problem-solving in responses'',
      ''Prepare 5-7 stories about overcoming challenges in previous roles''),
     (''Quantify achievements with metrics when possible'',
      ''Review your resume and add specific numbers and percentages to your achievements''),
     (''Research the company more thoroughly before the interview'',
      ''Spend at least one hour researching the company's products, culture, and recent news''),
     (''Prepare more concise responses to common questions'',
      ''Practice limiting your answers to 1-2 minutes for most questions''),
     (''Practice the STAR method for behavioral questions'',
      ''Work with a friend to practice behavioral interview questions using the STAR framework'')]"

definition genericRecommendations :: "string list" where
  "genericRecommendations =
    [''Join professional groups related to your field to expand your network'',
     ''Take an online course to strengthen skills in areas mentioned in the job description'',
     ''Prepare thoughtful questions to ask at the end of your next interview'',
     ''Create a portfolio that showcases your relevant projects and skills'']"

text \<open>\<^verbatim>\<open>recommendationMap[improvement] || `To address ...`\<close>: the mapped recommendation, or
  the generic sentence when there is none (no mapped recommendation is empty).\<close>

definition recommendationFor :: "string \<Rightarrow> string" where
  "recommendationFor improvement =
     (case map_of recommendationMap improvement of
        Some r \<Rightarrow> r
      | None \<Rightarrow> ''To address \"'' @ toLowerCase improvement
                 @ ''\", practice with a friend or career counselor'')"

definition generateRecommendations :: "string list \<Rightarrow> string list" where
  "generateRecommendations improvements =
     (let recommendations = map recommendationFor improvements
      in fillFromGeneric recommendations genericRecommendations)"

subsection \<open>The performance report\<close>

record performance_report =
  overallScore :: number
  technicalScore :: number
  communicationScore :: number
  problemSolvingScore :: number
  strengths :: "string list"
  improvements :: "string list"
  recommendations :: "string list"
  questionAnalysis :: "question_analysis list"

text \<open>\<^verbatim>\<open>item.feedback || "Good answer that could be more detailed."\<close>: a missing feedback and
  the empty string are both falsy. The fallback report does not read the answers, so
  \<open>generateFallbackReport\<close> takes entries with an answer of any type.\<close>

definition feedbackOrDefault :: "string option \<Rightarrow> string" where
  "feedbackOrDefault fb =
     (case fb of
        None \<Rightarrow> ''Good answer that could be more detailed.''
      | Some f \<Rightarrow> if f = [] then ''Good answer that could be more detailed.'' else f)"

definition generateFallbackReport :: "'a interview_item list \<Rightarrow> performance_report" where
  "generateFallbackReport interviewData =
     \<lparr>overallScore = Fin 70,
      technicalScore = Fin 68,
      communicationScore = Fin 75,
      problemSolvingScore = Fin 65,
      strengths =
        [''Good communication skills'',
         ''Demonstrates technical knowledge'',
         ''Shows enthusiasm for the role''],
      improvements =
        [''Could provide more specific examples'',
         ''More detailed technical answers needed'',
         ''Could structure answers more clearly''],
      recommendations =
        [''Practice structured answering techniques'',
         ''Prepare more concrete examples'',
         ''Research company-specific information''],
      questionAnalysis =
        map (\<lambda>item. \<lparr>qa_question = item_question item, qa_score = 70,
                       qa_feedback = feedbackOrDefault (item_feedback item)\<rparr>) interviewData\<rparr>"

subsection \<open>Exceptions\<close>

text \<open>The only exception a step of this module can raise is the \<^verbatim>\<open>TypeError\<close> of a method
  call or a property read on \<^verbatim>\<open>null\<close> or \<^verbatim>\<open>undefined\<close>. \<open>try_catch body handler\<close> is
  \<^verbatim>\<open>try { body } catch (error) { handler }\<close>: an exception that the handler raises leaves the
  function.\<close>

datatype error = TypeError

definition try_catch :: "error + 'a \<Rightarrow> (error \<Rightarrow> error + 'a) \<Rightarrow> error + 'a" where
  "try_catch body handler = (case body of Inl e \<Rightarrow> handler e | Inr v \<Rightarrow> Inr v)"

text \<open>\<^verbatim>\<open>generatePerformanceReport\<close> on arguments of the declared types; the parameters \<open>rt\<close>,
  \<open>rc\<close>, \<open>rp\<close> are the random draws of \<^verbatim>\<open>calculateScores\<close>. No step of the \<^verbatim>\<open>try\<close> block
  raises on such arguments: in particular the division by the number of questions does not.
  The same function on the values that can reach it at run time is
  \<open>generatePerformanceReport_untyped\<close> below.\<close>

definition generatePerformanceReport ::
  "rat \<Rightarrow> rat \<Rightarrow> rat \<Rightarrow> string \<Rightarrow> string \<Rightarrow> string interview_item list
     \<Rightarrow> error + performance_report"
  where
  "generatePerformanceReport rt rc rp jobTitle jobDescription interviewData =
     try_catch
       (let jobKeywords = extractKeywords (toLowerCase jobDescription);
            analysis = analyzeAnswers interviewData jobKeywords;
            sc = calculateScores rt rc rp analysis jobKeywords;
            strengths' = identifyStrengths analysis sc;
            improvements' = identifyImprovements analysis sc;
            recommendations' = generateRecommendations improvements'
        in Inr \<lparr>overallScore = overall sc,
                technicalScore = technical sc,
                communicationScore = communication sc,
                problemSolvingScore = problemSolving sc,
                strengths = strengths',
                improvements = improvements',
                recommendations = recommendations',
                questionAnalysis = analysis\<rparr>)
       (\<lambda>error. Inr (generateFallbackReport interviewData))"

text \<open>Feeding a report's per-question feedback back into the interview data: entry \<open>i\<close> gets
  the feedback of entry \<open>i\<close> of the analysis.\<close>

definition withFeedbackOf ::
  "string interview_item list \<Rightarrow> question_analysis list \<Rightarrow> string interview_item list"
  where
  "withFeedbackOf interviewData analysis =
     map (\<lambda>(item, a). item\<lparr>item_feedback := Some (qa_feedback a)\<rparr>) (zip interviewData analysis)"

subsection \<open>Question generation\<close>


definition technicalQuestionTemplates :: "(string \<Rightarrow> string) list" where
  "technicalQuestionTemplates =
    [\<lambda>skill. ''Tell me about your experience with '' @ skill @ ''.'',
     \<lambda>skill. ''How have you used '' @ skill @ '' in your previous roles?'',
     \<lambda>skill. ''Describe a challenging project where you utilized '' @ skill @ ''.'',
     \<lambda>skill. ''What do you consider best practices when working with '' @ skill @ ''?'',
     \<lambda>skill. ''How do you stay updated with the latest developments in '' @ skill @ ''?'']"

definition behavioralQuestionTemplates :: "string list" where
  "behavioralQuestionTemplates =
    [''Describe a situation where you had to meet a tight deadline.'',
     ''Tell me about a time when you had to work with a difficult team member.'',
     ''Give an example of a project that didn't go as planned and how you handled it.'',
     ''Describe a situation where you had to make a difficult decision.'',
     ''Tell me about a time when you went above and beyond for a project.'',
     ''How do you prioritize tasks when working on multiple projects?'',
     ''Describe a situation where you had to learn a new skill quickly.'',
     ''Tell me about a time when you received constructive criticism.'',
     ''How do you handle disagreements with team members?'',
     ''Give an example of how you've contributed to improving a process.'']"

definition roleSpecificQuestions :: "string \<Rightarrow> string list" where
  "roleSpecificQuestions jobTitle =
    [''What interests you about this '' @ jobTitle @ '' position?'',
     ''What do you think are the most important skills for a '' @ jobTitle @ ''?'',
     ''Where do you see the challenges in this '' @ jobTitle @ '' role?'',
     ''What achievements are you most proud of in your career as a '' @ jobTitle @ ''?'',
     ''How would you approach the first 90 days in this '' @ jobTitle @ '' position?'']"

text \<open>\<^verbatim>\<open>keywords.flatMap(keyword => technicalQuestionTemplates.map(template => template(keyword)))\<close>.\<close>

definition technicalQuestions :: "string list \<Rightarrow> string list" where
  "technicalQuestions keywords =
     concat (map (\<lambda>keyword. map (\<lambda>template. template keyword) technicalQuestionTemplates)
                 keywords)"

definition allQuestions :: "string \<Rightarrow> string list \<Rightarrow> string list" where
  "allQuestions jobTitle keywords =
     technicalQuestions keywords @ behavioralQuestionTemplates @ roleSpecificQuestions jobTitle"

text \<open>\<^verbatim>\<open>xs.slice(0, count)\<close> for an integer count \<open>cnt\<close>: a negative \<open>cnt\<close> is taken from the end
  of the array.\<close>

definition slice_from_0 :: "'a list \<Rightarrow> int \<Rightarrow> 'a list" where
  "slice_from_0 xs cnt =
     (if cnt < 0 then take (nat (int (length xs) + cnt)) xs else take (nat cnt) xs)"

text \<open>\<^verbatim>\<open>generateQuestionsFromKeywords\<close>. The questions are shuffled by
  \<^verbatim>\<open>allQuestions.sort(() => 0.5 - Math.random())\<close>: the order that a sort produces from a
  random comparison depends on the engine and on the draws, so the shuffle is the parameter
  \<open>shuffle\<close>; \<open>cnt\<close> is the parameter \<^verbatim>\<open>count\<close>. A sort rearranges the elements of its array and does nothing else: the
  properties that depend on it take \<open>mset (shuffle xs) = mset xs\<close> as hypothesis.\<close>

definition generateQuestionsFromKeywords ::
  "(string list \<Rightarrow> string list) \<Rightarrow> string \<Rightarrow> string list \<Rightarrow> int \<Rightarrow> string list" where
  "generateQuestionsFromKeywords shuffle jobTitle keywords cnt =
     (let shuffledQuestions = shuffle (allQuestions jobTitle keywords)
      in slice_from_0 shuffledQuestions cnt)"

subsection \<open>Values at run time\<close>

text \<open>TypeScript's types are erased at run time, and the route handlers pass fields of the
  request body on unchecked. A value of declared type \<open>'a\<close> is then a \<open>Val\<close> of that type, or
  \<^verbatim>\<open>null\<close>, or \<^verbatim>\<open>undefined\<close>. The operations on run-time values below take such a value
  wherever the code calls a method or reads a property of an argument, of an array entry or
  of a field: these are the places where a missing value makes a step raise. \<open>receiver v\<close>
  is the value whose method is called or whose property is read.\<close>

datatype 'a js = Val 'a | Null | Undefined

definition receiver :: "'a js \<Rightarrow> error + 'a" where
  "receiver v = (case v of Val x \<Rightarrow> Inr x | Null \<Rightarrow> Inl TypeError | Undefined \<Rightarrow> Inl TypeError)"

definition missing :: "'a js \<Rightarrow> bool" where
  "missing v = (case v of Val x \<Rightarrow> False | Null \<Rightarrow> True | Undefined \<Rightarrow> True)"


subsection \<open>The performance report on run-time values\<close>

text \<open>\<^verbatim>\<open>analyzeAnswers\<close> on run-time values: the callback reads \<^verbatim>\<open>item.answer\<close> and calls
  \<^verbatim>\<open>toLowerCase\<close> on it, entry by entry.\<close>

fun analyzeAnswers_untyped ::
  "string js interview_item js list \<Rightarrow> string list \<Rightarrow> error + question_analysis list" where
  "analyzeAnswers_untyped [] jobKeywords = Inr []"
| "analyzeAnswers_untyped (entry # interviewData) jobKeywords =
     (case receiver entry of
        Inl e \<Rightarrow> Inl e
      | Inr item \<Rightarrow>
          (case receiver (item_answer item) of
             Inl e \<Rightarrow> Inl e
           | Inr a \<Rightarrow>
               (case analyzeAnswers_untyped interviewData jobKeywords of
                  Inl e \<Rightarrow> Inl e
                | Inr analysis \<Rightarrow>
                    Inr (analyzeItem jobKeywords
                           \<lparr>item_question = item_question item, item_answer = a,
                            item_feedback = item_feedback item\<rparr> # analysis))))"

text \<open>The entries of an array, each of which a callback reads a property of.\<close>

fun entriesOf :: "'a js list \<Rightarrow> error + 'a list" where
  "entriesOf [] = Inr []"
| "entriesOf (entry # rest) =
     (case receiver entry of
        Inl e \<Rightarrow> Inl e
      | Inr x \<Rightarrow> (case entriesOf rest of Inl e \<Rightarrow> Inl e | Inr xs \<Rightarrow> Inr (x # xs)))"

text \<open>\<^verbatim>\<open>generateFallbackReport\<close> on run-time values: \<^verbatim>\<open>interviewData.map\<close> is a method call on
  the argument, and its callback reads \<^verbatim>\<open>item.question\<close> and \<^verbatim>\<open>item.feedback\<close>.\<close>

definition generateFallbackReport_untyped ::
  "'a interview_item js list js \<Rightarrow> error + performance_report" where
  "generateFallbackReport_untyped interviewData =
     (case receiver interviewData of
        Inl e \<Rightarrow> Inl e
      | Inr array \<Rightarrow>
          (case entriesOf array of
             Inl e \<Rightarrow> Inl e
           | Inr items \<Rightarrow> Inr (generateFallbackReport items)))"

text \<open>\<^verbatim>\<open>generatePerformanceReport\<close> on run-time values. The \<^verbatim>\<open>catch\<close> block calls
  \<^verbatim>\<open>generateFallbackReport(interviewData)\<close> outside of any \<^verbatim>\<open>try\<close>.\<close>

definition generatePerformanceReport_untyped ::
  "rat \<Rightarrow> rat \<Rightarrow> rat \<Rightarrow> string \<Rightarrow> string js \<Rightarrow> string js interview_item js list js
     \<Rightarrow> error + performance_report"
  where
  "generatePerformanceReport_untyped rt rc rp jobTitle jobDescription interviewData =
     try_catch
       (case receiver jobDescription of
          Inl e \<Rightarrow> Inl e
        | Inr d \<Rightarrow>
            (let jobKeywords = extractKeywords (toLowerCase d)
             in case receiver interviewData of
                  Inl e \<Rightarrow> Inl e
                | Inr array \<Rightarrow>
                    (case analyzeAnswers_untyped array jobKeywords of
                       Inl e \<Rightarrow> Inl e
                     | Inr analysis \<Rightarrow>
                         (let sc = calculateScores rt rc rp analysis jobKeywords;
                              strengths' = identifyStrengths analysis sc;
                              improvements' = identifyImprovements analysis sc;
                              recommendations' = generateRecommendations improvements'
                          in Inr \<lparr>overallScore = overall sc,
                                  technicalScore = technical sc,
                                  communicationScore = communication sc,
                                  problemSolvingScore = problemSolving sc,
                                  strengths = strengths',
                                  improvements = improvements',
                                  recommendations = recommendations',
                                  questionAnalysis = analysis\<rparr>))))
       (\<lambda>error. generateFallbackReport_untyped interviewData)"


subsection \<open>The next question\<close>
















subsection \<open>Facts about strings\<close>

lemma startsWith_iff: "startsWith s k \<longleftrightarrow> (\<exists>t. s = k @ t)"
  by (induction s k rule: startsWith.induct) auto

lemma includes_iff: "includes_str s k \<longleftrightarrow> (\<exists>p t. s = p @ k @ t)"
proof (induction s)
  case Nil
  then show ?case by simp
next
  case (Cons c cs)
  show ?case
  proof
    assume "includes_str (c # cs) k"
    then consider "startsWith (c # cs) k" | "includes_str cs k" by auto
    then show "\<exists>p t. c # cs = p @ k @ t"
    proof cases
      case 1
      then obtain t where "c # cs = k @ t" by (auto simp: startsWith_iff)
      then have "c # cs = [] @ k @ t" by simp
      then show ?thesis by blast
    next
      case 2
      then obtain p t where "cs = p @ k @ t" using Cons.IH by blast
      then have "c # cs = (c # p) @ k @ t" by simp
      then show ?thesis by blast
    qed
  next
    assume "\<exists>p t. c # cs = p @ k @ t"
    then obtain p t where eq: "c # cs = p @ k @ t" by blast
    show "includes_str (c # cs) k"
    proof (cases p)
      case Nil
      with eq have "startsWith (c # cs) k" by (auto simp: startsWith_iff)
      then show ?thesis by simp
    next
      case (Cons a p')
      with eq have "cs = p' @ k @ t" by simp
      then have "includes_str cs k" using Cons.IH by blast
      then show ?thesis by simp
    qed
  qed
qed

lemma includes_part:
  assumes "includes_str s k" and "includes_str k j"
  shows "includes_str s j"
proof -
  from assms(1) obtain p t where s: "s = p @ k @ t" by (auto simp: includes_iff)
  from assms(2) obtain q u where k: "k = q @ j @ u" by (auto simp: includes_iff)
  from s k have "s = (p @ q) @ j @ (u @ t)" by simp
  then show ?thesis unfolding includes_iff by blast
qed

subsection \<open>Properties of keyword extraction\<close>

text \<open>
  Claim C5. For every description, \<open>extractKeywords\<close> returns at least three keywords, so
  never an empty sequence. When fewer than three vocabulary terms occur in the description,
  the result is the found terms followed by the four generic terms "experience", "skills",
  "projects", "challenges", and has at least four elements.
\<close>

theorem extractKeywords_length:
  "3 \<le> length (extractKeywords description) \<and>
   extractKeywords description \<noteq> [] \<and>
   (length (filter (\<lambda>keyword. includes_str description keyword) commonKeywords) < 3 \<longrightarrow>
      extractKeywords description =
        filter (\<lambda>keyword. includes_str description keyword) commonKeywords
          @ [''experience'', ''skills'', ''projects'', ''challenges''] \<and>
      4 \<le> length (extractKeywords description))"
proof -
  let ?found = "filter (\<lambda>keyword. includes_str description keyword) commonKeywords"
  show ?thesis
  proof (cases "length ?found < 3")
    case True
    then have "extractKeywords description = ?found @ genericKeywords"
      by (simp add: extractKeywords_def)
    then show ?thesis by (simp add: genericKeywords_def)
  next
    case False
    then have "extractKeywords description = ?found"
      by (simp add: extractKeywords_def)
    with False show ?thesis by auto
  qed
qed

theorem extractKeywords_length_witness:
  "length (filter (\<lambda>keyword. includes_str ''we use react'' keyword) commonKeywords) < 3 \<and>
   extractKeywords ''we use react'' =
     [''react'', ''experience'', ''skills'', ''projects'', ''challenges'']"
proof -
  have found: "filter (\<lambda>keyword. includes_str ''we use react'' keyword) commonKeywords = [''react'']"
    by code_simp
  then have small: "length (filter (\<lambda>keyword. includes_str ''we use react'' keyword) commonKeywords) < 3"
    by simp
  from extractKeywords_length [of "''we use react''"] small found show ?thesis
    by simp
qed

text \<open>
  Claim C6. Vocabulary terms are matched by substring containment, not at word boundaries:
  for every description that contains "javascript", the extracted keywords contain both
  "javascript" and "java".
\<close>

theorem extractKeywords_javascript:
  assumes "includes_str description ''javascript''"
  shows "''javascript'' \<in> set (extractKeywords description) \<and>
         ''java'' \<in> set (extractKeywords description)"
proof -
  let ?found = "filter (\<lambda>keyword. includes_str description keyword) commonKeywords"
  have "includes_str ''javascript'' ''java''" by simp
  with assms have java: "includes_str description ''java''" by (rule includes_part)
  have "''javascript'' \<in> set commonKeywords" and "''java'' \<in> set commonKeywords"
    by (simp_all add: commonKeywords_def)
  with assms java have "''javascript'' \<in> set ?found" and "''java'' \<in> set ?found"
    by simp_all
  moreover have "set ?found \<subseteq> set (extractKeywords description)"
    by (auto simp: extractKeywords_def Let_def)
  ultimately show ?thesis by blast
qed

theorem extractKeywords_javascript_witness:
  "includes_str ''senior javascript developer'' ''javascript'' \<and>
   ''javascript'' \<in> set (extractKeywords ''senior javascript developer'') \<and>
   ''java'' \<in> set (extractKeywords ''senior javascript developer'')"
proof -
  have h: "includes_str ''senior javascript developer'' ''javascript''" by code_simp
  from extractKeywords_javascript [OF h] h show ?thesis by simp
qed

subsection \<open>Properties of the answer analysis\<close>

lemma keywordAdjustment_spec: "keywordAdjustment m = spec_keyword_bracket m"
  by (simp add: keywordAdjustment_def spec_keyword_bracket_def)

lemma lengthAdjustment_spec: "lengthAdjustment w = spec_wordcount_bracket w"
  by (simp add: lengthAdjustment_def spec_wordcount_bracket_def)

lemma clamp_spec: "max 0 (min 100 x) = spec_clamp x"
  by (simp add: spec_clamp_def)

lemma keywordAdjustment_range: "0 \<le> keywordAdjustment m \<and> keywordAdjustment m \<le> 15"
  by (simp add: keywordAdjustment_def)

lemma lengthAdjustment_range: "- 15 \<le> lengthAdjustment w \<and> lengthAdjustment w \<le> 10"
  by (simp add: lengthAdjustment_def)

lemma qa_score_analyzeItem:
  "qa_score (analyzeItem keywords item) =
     max 0 (min 100 (70
       + keywordAdjustment (keywordMentions keywords (toLowerCase (item_answer item)))
       + lengthAdjustment (wordCount (toLowerCase (item_answer item)))))"
  by (simp add: analyzeItem_def Let_def)

lemma split_ws_empty: "wordCount (toLowerCase []) = 1"
  by (simp add: wordCount_def toLowerCase_def)

lemma keywordMentions_empty:
  "\<forall>k \<in> set keywords. k \<noteq> [] \<Longrightarrow> keywordMentions keywords (toLowerCase []) = 0"
  by (induction "keywords") (simp_all add: keywordMentions_def toLowerCase_def)

text \<open>
  Claim C3. For every answer and every list of keywords, the score of the analysis is the
  base 70 plus one keyword bracket (+15 for more than 3 keywords occurring in the lower-cased
  answer, +10 for 2 or 3, +5 for exactly 1, +0 for none) plus one word-count bracket (+10
  above 150 words, +5 for 101 to 150, -15 below 20, -5 for 20 to 49, +0 for 50 to 100),
  clamped to the interval from 0 to 100; so the score lies between 0 and 100.
\<close>

theorem analyzeItem_score_spec:
  "qa_score (analyzeItem keywords item) = spec_score keywords (item_answer item) \<and>
   0 \<le> qa_score (analyzeItem keywords item) \<and>
   qa_score (analyzeItem keywords item) \<le> 100"
proof -
  have "qa_score (analyzeItem keywords item) = spec_score keywords (item_answer item)"
    unfolding qa_score_analyzeItem spec_score_def
    by (simp only: keywordAdjustment_spec lengthAdjustment_spec clamp_spec
        keywordMentions_def wordCount_def)
  moreover have "0 \<le> qa_score (analyzeItem keywords item)"
    and "qa_score (analyzeItem keywords item) \<le> 100"
    unfolding qa_score_analyzeItem by simp_all
  ultimately show ?thesis by simp
qed

theorem analyzeItem_score_spec_witness:
  "qa_score (analyzeItem [''java'', ''sql'']
      \<lparr>item_question = ''Q'', item_answer = ''I write Java and SQL'', item_feedback = None\<rparr>) = 65"
proof -
  have "spec_score [''java'', ''sql''] ''I write Java and SQL'' = 65"
    by code_simp
  with analyzeItem_score_spec [of "[''java'', ''sql'']"
      "\<lparr>item_question = ''Q'', item_answer = ''I write Java and SQL'', item_feedback = None\<rparr>"]
  show ?thesis by simp
qed

text \<open>
  Claim C4. For every keyword list whose elements are non-empty strings, the analysis of
  the empty answer has score 55: splitting the empty string at white space gives one piece,
  so the word count is 1, which is below 20, and no keyword occurs in it. As 55 is below 60,
  the feedback is "Answer needs improvement - provide more details and specific examples."
\<close>

theorem analyzeItem_empty_answer:
  assumes "\<forall>k \<in> set keywords. k \<noteq> []"
  shows "analyzeItem keywords \<lparr>item_question = q, item_answer = [], item_feedback = fb\<rparr> =
           \<lparr>qa_question = q, qa_score = 55,
            qa_feedback =
              ''Answer needs improvement - provide more details and specific examples.''\<rparr> \<and>
         wordCount (toLowerCase []) = 1 \<and>
         keywordMentions keywords (toLowerCase []) = 0"
proof -
  from assms have m: "keywordMentions keywords (toLowerCase []) = 0"
    by (rule keywordMentions_empty)
  have w: "wordCount (toLowerCase []) = 1" by (rule split_ws_empty)
  have "analyzeItem keywords \<lparr>item_question = q, item_answer = [], item_feedback = fb\<rparr> =
           \<lparr>qa_question = q, qa_score = 55,
            qa_feedback =
              ''Answer needs improvement - provide more details and specific examples.''\<rparr>"
    by (simp add: analyzeItem_def Let_def m w keywordAdjustment_def lengthAdjustment_def
        scoreFeedback_def)
  with m w show ?thesis by simp
qed

theorem analyzeItem_empty_answer_witness:
  "analyzeItem [''java'', ''sql''] \<lparr>item_question = ''Q'', item_answer = [], item_feedback = None\<rparr> =
     \<lparr>qa_question = ''Q'', qa_score = 55,
      qa_feedback = ''Answer needs improvement - provide more details and specific examples.''\<rparr>"
proof -
  have h: "\<forall>k \<in> set [''java'', ''sql'']. k \<noteq> []" by simp
  from analyzeItem_empty_answer [OF h, of "''Q''" None] show ?thesis by simp
qed

text \<open>
  Claim C10. The score of the analysis always lies between 55 and 95: the adjustments add
  at most 15 + 10 and take away at most 15 from the base 70, so the clamp to the interval
  from 0 to 100 never changes the sum.
\<close>

theorem analyzeItem_score_bounds:
  "55 \<le> qa_score (analyzeItem keywords item) \<and>
   qa_score (analyzeItem keywords item) \<le> 95 \<and>
   qa_score (analyzeItem keywords item) =
     70 + keywordAdjustment (keywordMentions keywords (toLowerCase (item_answer item)))
        + lengthAdjustment (wordCount (toLowerCase (item_answer item)))"
proof -
  let ?k = "keywordAdjustment (keywordMentions keywords (toLowerCase (item_answer item)))"
  let ?l = "lengthAdjustment (wordCount (toLowerCase (item_answer item)))"
  have k: "0 \<le> ?k \<and> ?k \<le> 15" by (rule keywordAdjustment_range)
  have l: "- 15 \<le> ?l \<and> ?l \<le> 10" by (rule lengthAdjustment_range)
  have "qa_score (analyzeItem keywords item) = max 0 (min 100 (70 + ?k + ?l))"
    by (rule qa_score_analyzeItem)
  with k l show ?thesis by linarith
qed

theorem analyzeItem_score_bounds_witness:
  "55 \<le> qa_score (analyzeItem [''java''] \<lparr>item_question = ''Q'', item_answer = ''x'', item_feedback = None\<rparr>) \<and>
   qa_score (analyzeItem [''java''] \<lparr>item_question = ''Q'', item_answer = ''x'', item_feedback = None\<rparr>) \<le> 95"
  using analyzeItem_score_bounds [of "[''java'']"
      "\<lparr>item_question = ''Q'', item_answer = ''x'', item_feedback = None\<rparr>"]
  by simp

subsection \<open>Properties of question generation\<close>

lemma length_technicalQuestions: "length (technicalQuestions ks) = 5 * length ks"
  by (induction ks) (simp_all add: technicalQuestions_def technicalQuestionTemplates_def)

lemma set_technicalQuestions:
  "set (technicalQuestions ks) =
     {template keyword | template keyword.
        template \<in> set technicalQuestionTemplates \<and> keyword \<in> set ks}"
  unfolding technicalQuestions_def by auto

lemma length_allQuestions: "length (allQuestions jobTitle ks) = 5 * length ks + 15"
  by (simp add: allQuestions_def length_technicalQuestions behavioralQuestionTemplates_def
      roleSpecificQuestions_def)

text \<open>
  Claim C7. For every non-empty keyword list and every job title,
  \<open>generateQuestionsFromKeywords\<close> with count 5 returns exactly 5 strings, and each of them
  belongs to the union of the three pools: the 5 technical templates applied to each keyword,
  the 10 behavioral prompts, and the 5 role-specific questions for the job title. This holds
  for every outcome of the shuffle, that is for every rearrangement of the pooled questions.
\<close>

theorem generateQuestionsFromKeywords_five:
  assumes "ks \<noteq> []"
    and "mset (shuffle (allQuestions jobTitle ks)) = mset (allQuestions jobTitle ks)"
  shows "length (generateQuestionsFromKeywords shuffle jobTitle ks 5) = 5 \<and>
         set (generateQuestionsFromKeywords shuffle jobTitle ks 5) \<subseteq>
           {template keyword | template keyword.
              template \<in> set technicalQuestionTemplates \<and> keyword \<in> set ks}
           \<union> set behavioralQuestionTemplates
           \<union> set (roleSpecificQuestions jobTitle) \<and>
         length technicalQuestionTemplates = 5 \<and>
         length behavioralQuestionTemplates = 10 \<and>
         length (roleSpecificQuestions jobTitle) = 5"
proof -
  let ?all = "allQuestions jobTitle ks"
  have res: "generateQuestionsFromKeywords shuffle jobTitle ks 5 = take 5 (shuffle ?all)"
    by (simp add: generateQuestionsFromKeywords_def slice_from_0_def)
  from assms(2) have "length (shuffle ?all) = length ?all"
    by (rule mset_eq_length)
  then have "5 \<le> length (shuffle ?all)"
    by (simp add: length_allQuestions)
  then have len: "length (take 5 (shuffle ?all)) = 5" by simp
  from assms(2) have "set (shuffle ?all) = set ?all"
    by (rule mset_eq_setD)
  then have "set (take 5 (shuffle ?all)) \<subseteq> set ?all"
    using set_take_subset [of 5 "shuffle ?all"] by simp
  then have sub: "set (take 5 (shuffle ?all)) \<subseteq>
      {template keyword | template keyword.
         template \<in> set technicalQuestionTemplates \<and> keyword \<in> set ks}
      \<union> set behavioralQuestionTemplates \<union> set (roleSpecificQuestions jobTitle)"
    by (simp add: allQuestions_def set_technicalQuestions Un_assoc)
  have "length technicalQuestionTemplates = 5"
    and "length behavioralQuestionTemplates = 10"
    and "length (roleSpecificQuestions jobTitle) = 5"
    by (simp_all add: technicalQuestionTemplates_def behavioralQuestionTemplates_def
        roleSpecificQuestions_def)
  with res len sub show ?thesis by simp
qed

theorem generateQuestionsFromKeywords_five_witness:
  "[''sql''] \<noteq> [] \<and>
   mset (rev (allQuestions ''Backend Engineer'' [''sql''])) =
     mset (allQuestions ''Backend Engineer'' [''sql'']) \<and>
   length (generateQuestionsFromKeywords rev ''Backend Engineer'' [''sql''] 5) = 5"
proof -
  have h1: "[''sql''] \<noteq> ([] :: string list)" by simp
  have h2: "mset (rev (allQuestions ''Backend Engineer'' [''sql''])) =
     mset (allQuestions ''Backend Engineer'' [''sql''])" by simp
  from generateQuestionsFromKeywords_five [of "[''sql'']" rev "''Backend Engineer''", OF h1 h2] h2
  show ?thesis by simp
qed

subsection \<open>Properties of the report\<close>

lemma fillFromGeneric_eq:
  "\<forall>g \<in> set generic. g \<noteq> [] \<Longrightarrow>
   fillFromGeneric entries generic = entries @ take (3 - length entries) generic"
proof (induction generic arbitrary: entries)
  case Nil
  then show ?case by simp
next
  case (Cons g generic)
  show ?case
  proof (cases "length entries < 3")
    case True
    from Cons.prems have g: "g \<noteq> []" and rest: "\<forall>g \<in> set generic. g \<noteq> []"
      by simp_all
    from True obtain m where m: "3 - length entries = Suc m"
      by (cases "3 - length entries") simp_all
    then have m': "3 - length (entries @ [g]) = m" by simp
    from True g have "fillFromGeneric entries (g # generic) =
        fillFromGeneric (entries @ [g]) generic" by simp
    also have "\<dots> = (entries @ [g]) @ take m generic"
      using Cons.IH [OF rest, of "entries @ [g]"] m' by simp
    also have "\<dots> = entries @ take (3 - length entries) (g # generic)"
      using m by simp
    finally show ?thesis .
  next
    case False
    then show ?thesis by simp
  qed
qed

lemma genericStrengths_ok: "\<forall>g \<in> set genericStrengths. g \<noteq> []"
  by (simp add: genericStrengths_def)

lemma genericImprovements_ok: "\<forall>g \<in> set genericImprovements. g \<noteq> []"
  by (simp add: genericImprovements_def)

lemma genericRecommendations_ok: "\<forall>g \<in> set genericRecommendations. g \<noteq> []"
  by (simp add: genericRecommendations_def)

lemma identifyStrengths_eq:
  "identifyStrengths qa sc =
     thresholdStrengths qa sc @ take (3 - length (thresholdStrengths qa sc)) genericStrengths"
  unfolding identifyStrengths_def by (rule fillFromGeneric_eq [OF genericStrengths_ok])

lemma identifyImprovements_eq:
  "identifyImprovements qa sc =
     thresholdImprovements qa sc
       @ take (3 - length (thresholdImprovements qa sc)) genericImprovements"
  unfolding identifyImprovements_def by (rule fillFromGeneric_eq [OF genericImprovements_ok])

lemma generateRecommendations_eq:
  "generateRecommendations imps =
     map recommendationFor imps @ take (3 - length imps) genericRecommendations"
  unfolding generateRecommendations_def Let_def
  using fillFromGeneric_eq [OF genericRecommendations_ok, of "map recommendationFor imps"]
  by simp

lemma length_padded:
  "4 \<le> length pool \<Longrightarrow> 3 \<le> length (entries @ take (3 - length entries) pool)"
  by auto

lemma length_identifyStrengths: "3 \<le> length (identifyStrengths qa sc)"
  unfolding identifyStrengths_eq by (rule length_padded) (simp add: genericStrengths_def)

lemma length_identifyImprovements: "3 \<le> length (identifyImprovements qa sc)"
  unfolding identifyImprovements_eq by (rule length_padded) (simp add: genericImprovements_def)

lemma length_generateRecommendations: "3 \<le> length (generateRecommendations imps)"
proof -
  have "3 \<le> length (map recommendationFor imps
      @ take (3 - length (map recommendationFor imps)) genericRecommendations)"
    by (rule length_padded) (simp add: genericRecommendations_def)
  then show ?thesis by (simp add: generateRecommendations_eq)
qed

text \<open>What the \<^verbatim>\<open>try\<close> block of \<open>generatePerformanceReport\<close> returns.\<close>

lemma generatePerformanceReport_eq:
  "generatePerformanceReport rt rc rp jobTitle jobDescription interviewData =
     Inr \<lparr>overallScore = overall (calculateScores rt rc rp
             (analyzeAnswers interviewData (extractKeywords (toLowerCase jobDescription)))
             (extractKeywords (toLowerCase jobDescription))),
          technicalScore = technical (calculateScores rt rc rp
             (analyzeAnswers interviewData (extractKeywords (toLowerCase jobDescription)))
             (extractKeywords (toLowerCase jobDescription))),
          communicationScore = communication (calculateScores rt rc rp
             (analyzeAnswers interviewData (extractKeywords (toLowerCase jobDescription)))
             (extractKeywords (toLowerCase jobDescription))),
          problemSolvingScore = problemSolving (calculateScores rt rc rp
             (analyzeAnswers interviewData (extractKeywords (toLowerCase jobDescription)))
             (extractKeywords (toLowerCase jobDescription))),
          strengths = identifyStrengths
             (analyzeAnswers interviewData (extractKeywords (toLowerCase jobDescription)))
             (calculateScores rt rc rp
               (analyzeAnswers interviewData (extractKeywords (toLowerCase jobDescription)))
               (extractKeywords (toLowerCase jobDescription))),
          improvements = identifyImprovements
             (analyzeAnswers interviewData (extractKeywords (toLowerCase jobDescription)))
             (calculateScores rt rc rp
               (analyzeAnswers interviewData (extractKeywords (toLowerCase jobDescription)))
               (extractKeywords (toLowerCase jobDescription))),
          recommendations = generateRecommendations (identifyImprovements
             (analyzeAnswers interviewData (extractKeywords (toLowerCase jobDescription)))
             (calculateScores rt rc rp
               (analyzeAnswers interviewData (extractKeywords (toLowerCase jobDescription)))
               (extractKeywords (toLowerCase jobDescription)))),
          questionAnalysis =
             analyzeAnswers interviewData (extractKeywords (toLowerCase jobDescription))\<rparr>"
  by (simp add: generatePerformanceReport_def try_catch_def Let_def)

text \<open>The improvements that reach \<open>generateRecommendations\<close> are not names of inherited
  properties, so the lookup in the object and the lookup in the association list agree on
  them.\<close>

lemma identifyImprovements_mapped:
  "set (identifyImprovements qa sc) \<inter> set inheritedProperties = {}"
proof -
  define rules where "rules =
     [''Provide more detailed responses with specific examples'',
      ''Highlight technical skills more clearly in answers'',
      ''Structure answers more clearly with a beginning, middle, and conclusion'',
      ''Include more examples of problem-solving in responses'']"
  have "set (thresholdImprovements qa sc) \<subseteq> set rules"
    by (auto simp: thresholdImprovements_def Let_def rules_def)
  moreover have "set (take n genericImprovements) \<subseteq> set genericImprovements" for n
    by (rule set_take_subset)
  ultimately have sub: "set (identifyImprovements qa sc) \<subseteq> set rules \<union> set genericImprovements"
    unfolding identifyImprovements_eq by auto
  have r: "set rules \<inter> set inheritedProperties = {}"
    by (simp add: rules_def inheritedProperties_def)
  have g: "set genericImprovements \<inter> set inheritedProperties = {}"
    by (simp add: genericImprovements_def inheritedProperties_def)
  from sub r g show ?thesis by blast
qed

text \<open>
  Claim C8. For every input, the report that \<open>generatePerformanceReport\<close> returns has at least
  three strengths, three improvements and three recommendations, and so has the fallback
  report. In the report returned, the strengths are the entries that the threshold rules
  yield for the report's question analysis and scores, followed, when these are fewer than
  three, by the first entries of the generic pool in the pool's order; the improvements are
  formed in the same way; and the recommendations are the recommendation for each of the
  report's improvements, filled from their generic pool in the same way.
\<close>

theorem report_lists_at_least_three:
  "(\<exists>report.
      generatePerformanceReport rt rc rp jobTitle jobDescription interviewData = Inr report \<and>
      3 \<le> length (strengths report) \<and>
      3 \<le> length (improvements report) \<and>
      3 \<le> length (recommendations report) \<and>
      (let sc = \<lparr>overall = overallScore report, technical = technicalScore report,
                  communication = communicationScore report,
                  problemSolving = problemSolvingScore report\<rparr>;
           ruleStrengths = thresholdStrengths (questionAnalysis report) sc;
           ruleImprovements = thresholdImprovements (questionAnalysis report) sc
       in strengths report =
            ruleStrengths @ take (3 - length ruleStrengths) genericStrengths \<and>
          improvements report =
            ruleImprovements @ take (3 - length ruleImprovements) genericImprovements \<and>
          recommendations report =
            map recommendationFor (improvements report)
              @ take (3 - length (improvements report)) genericRecommendations)) \<and>
   3 \<le> length (strengths (generateFallbackReport interviewData)) \<and>
   3 \<le> length (improvements (generateFallbackReport interviewData)) \<and>
   3 \<le> length (recommendations (generateFallbackReport interviewData))"
proof -
  let ?kws = "extractKeywords (toLowerCase jobDescription)"
  let ?qa = "analyzeAnswers interviewData ?kws"
  let ?sc = "calculateScores rt rc rp ?qa ?kws"
  have sc: "\<lparr>overall = overall ?sc, technical = technical ?sc,
             communication = communication ?sc, problemSolving = problemSolving ?sc\<rparr> = ?sc"
    by simp
  have "\<exists>report.
      generatePerformanceReport rt rc rp jobTitle jobDescription interviewData = Inr report \<and>
      3 \<le> length (strengths report) \<and>
      3 \<le> length (improvements report) \<and>
      3 \<le> length (recommendations report) \<and>
      (let sc = \<lparr>overall = overallScore report, technical = technicalScore report,
                  communication = communicationScore report,
                  problemSolving = problemSolvingScore report\<rparr>;
           ruleStrengths = thresholdStrengths (questionAnalysis report) sc;
           ruleImprovements = thresholdImprovements (questionAnalysis report) sc
       in strengths report =
            ruleStrengths @ take (3 - length ruleStrengths) genericStrengths \<and>
          improvements report =
            ruleImprovements @ take (3 - length ruleImprovements) genericImprovements \<and>
          recommendations report =
            map recommendationFor (improvements report)
              @ take (3 - length (improvements report)) genericRecommendations)"
    unfolding generatePerformanceReport_eq
    using identifyStrengths_eq [of ?qa ?sc] identifyImprovements_eq [of ?qa ?sc]
      generateRecommendations_eq [of "identifyImprovements ?qa ?sc"]
      length_identifyStrengths [of ?qa ?sc] length_identifyImprovements [of ?qa ?sc]
      length_generateRecommendations [of "identifyImprovements ?qa ?sc"]
    by (simp add: Let_def sc del: scores.simps)
  moreover have "3 \<le> length (strengths (generateFallbackReport interviewData))"
    and "3 \<le> length (improvements (generateFallbackReport interviewData))"
    and "3 \<le> length (recommendations (generateFallbackReport interviewData))"
    by (simp_all add: generateFallbackReport_def)
  ultimately show ?thesis by blast
qed

lemma analyzeItem_feedback:
  "analyzeItem kws (item\<lparr>item_feedback := fb\<rparr>) = analyzeItem kws item"
  by (simp add: analyzeItem_def)

lemma analyzeAnswers_withFeedbackOf:
  "length qa = length interviewData \<Longrightarrow>
   analyzeAnswers (withFeedbackOf interviewData qa) kws = analyzeAnswers interviewData kws"
proof (induction interviewData arbitrary: qa)
  case Nil
  then show ?case by (simp add: analyzeAnswers_def withFeedbackOf_def)
next
  case (Cons item interviewData)
  then obtain a qa' where qa: "qa = a # qa'" and len: "length qa' = length interviewData"
    by (cases qa) simp_all
  from Cons.IH [OF len] show ?case
    by (simp add: qa analyzeAnswers_def withFeedbackOf_def analyzeItem_feedback)
qed

lemma length_analyzeAnswers: "length (analyzeAnswers interviewData kws) = length interviewData"
  by (simp add: analyzeAnswers_def)

lemma overall_calculateScores:
  "overall (calculateScores rt rc rp qa kws) =
     Math_round (js_divide (of_int (foldl (\<lambda>sum item. sum + qa_score item) 0 qa))
                           (of_nat (length qa)))"
  by (simp add: calculateScores_def Let_def)

lemma overall_finite:
  "qa \<noteq> [] \<Longrightarrow> overall (calculateScores rt rc rp qa kws) \<noteq> NaN"
  by (simp add: overall_calculateScores js_divide_def)

text \<open>
  Claim C9. For every non-empty \<open>interviewData\<close>: when each entry's feedback is replaced by
  the feedback of the same entry in the analysis of the report that
  \<open>generatePerformanceReport\<close> returns, and the report is generated again, the overall score
  is the same. The analysis reads the question and the answer of an entry only, so the whole
  analysis is the same, whatever the random draws of the two runs are.
\<close>

theorem overallScore_roundtrip:
  assumes "interviewData \<noteq> []"
  shows "\<exists>report report'.
           generatePerformanceReport rt rc rp jobTitle jobDescription interviewData
             = Inr report \<and>
           generatePerformanceReport rt' rc' rp' jobTitle jobDescription
               (withFeedbackOf interviewData (questionAnalysis report))
             = Inr report' \<and>
           overallScore report' = overallScore report \<and>
           questionAnalysis report' = questionAnalysis report \<and>
           overallScore report \<noteq> NaN"
proof -
  let ?kws = "extractKeywords (toLowerCase jobDescription)"
  let ?qa = "analyzeAnswers interviewData ?kws"
  let ?fed = "withFeedbackOf interviewData ?qa"
  obtain report where report:
    "generatePerformanceReport rt rc rp jobTitle jobDescription interviewData = Inr report"
    and qa: "questionAnalysis report = ?qa"
    and ov: "overallScore report = overall (calculateScores rt rc rp ?qa ?kws)"
    by (simp add: generatePerformanceReport_eq)
  obtain report' where report':
    "generatePerformanceReport rt' rc' rp' jobTitle jobDescription ?fed = Inr report'"
    and qa': "questionAnalysis report' = analyzeAnswers ?fed ?kws"
    and ov': "overallScore report' =
                overall (calculateScores rt' rc' rp' (analyzeAnswers ?fed ?kws) ?kws)"
    by (simp add: generatePerformanceReport_eq)
  have same: "analyzeAnswers ?fed ?kws = ?qa"
    by (rule analyzeAnswers_withFeedbackOf) (rule length_analyzeAnswers)
  from assms have "?qa \<noteq> []" by (simp add: analyzeAnswers_def)
  then have fin: "overallScore report \<noteq> NaN"
    unfolding ov by (rule overall_finite)
  have "overallScore report' = overallScore report"
    by (simp add: ov ov' same overall_calculateScores)
  with report report' qa qa' same fin show ?thesis
    by (auto simp: qa)
qed

theorem overallScore_roundtrip_witness:
  "[\<lparr>item_question = ''Q'', item_answer = ''I write Java'', item_feedback = None\<rparr>] \<noteq> [] \<and>
   (\<exists>report report'.
      generatePerformanceReport 0 0 0 ''Developer'' ''Java and SQL''
          [\<lparr>item_question = ''Q'', item_answer = ''I write Java'', item_feedback = None\<rparr>]
        = Inr report \<and>
      generatePerformanceReport (1 / 2) (1 / 2) (1 / 2) ''Developer'' ''Java and SQL''
          (withFeedbackOf
             [\<lparr>item_question = ''Q'', item_answer = ''I write Java'', item_feedback = None\<rparr>]
             (questionAnalysis report))
        = Inr report' \<and>
      overallScore report' = overallScore report)"
proof -
  have h: "[\<lparr>item_question = ''Q'', item_answer = ''I write Java'', item_feedback = None\<rparr>] \<noteq> []"
    by simp
  from overallScore_roundtrip [OF h, of 0 0 0 "''Developer''" "''Java and SQL''"
      "1 / 2" "1 / 2" "1 / 2"]
  show ?thesis by blast
qed

lemma calculateScores_empty:
  "calculateScores rt rc rp [] kws =
     \<lparr>overall = NaN, technical = NaN, communication = NaN, problemSolving = NaN\<rparr>"
  by (simp add: calculateScores_def js_divide_def)

text \<open>
  Claim C1, evaluated on the code. For an empty \<open>interviewData\<close>, \<open>generatePerformanceReport\<close>
  does not raise. The mean of no scores is \<^verbatim>\<open>0 / 0\<close>, which is \<^verbatim>\<open>NaN\<close> and not an
  exception, so the \<^verbatim>\<open>catch\<close> block is not entered: the report returned has the four scores
  \<^verbatim>\<open>NaN\<close> and lists filled from the generic pools. It is not the fallback report, whose
  overall score is 70.
\<close>

theorem generatePerformanceReport_empty:
  "generatePerformanceReport rt rc rp jobTitle jobDescription [] =
     Inr \<lparr>overallScore = NaN,
          technicalScore = NaN,
          communicationScore = NaN,
          problemSolvingScore = NaN,
          strengths =
            [''Showed enthusiasm for the role'',
             ''Articulated past experiences well'',
             ''Demonstrated a positive attitude''],
          improvements =
            [''Quantify achievements with metrics when possible'',
             ''Research the company more thoroughly before the interview'',
             ''Prepare more concise responses to common questions''],
          recommendations =
            [''Review your resume and add specific numbers and percentages to your achievements'',
             ''Spend at least one hour researching the company's products, culture, and recent news'',
             ''Practice limiting your answers to 1-2 minutes for most questions''],
          questionAnalysis = []\<rparr> \<and>
   generatePerformanceReport rt rc rp jobTitle jobDescription []
     \<noteq> Inr (generateFallbackReport ([] :: string interview_item list)) \<and>
   overallScore (generateFallbackReport ([] :: string interview_item list)) = Fin 70"
proof -
  let ?nan = "\<lparr>overall = NaN, technical = NaN, communication = NaN, problemSolving = NaN\<rparr>"
  have s: "identifyStrengths [] ?nan =
      [''Showed enthusiasm for the role'',
       ''Articulated past experiences well'',
       ''Demonstrated a positive attitude'']"
    by (simp add: identifyStrengths_def thresholdStrengths_def genericStrengths_def)
  have i: "identifyImprovements [] ?nan =
      [''Quantify achievements with metrics when possible'',
       ''Research the company more thoroughly before the interview'',
       ''Prepare more concise responses to common questions'']"
    by (simp add: identifyImprovements_def thresholdImprovements_def genericImprovements_def)
  have r: "generateRecommendations
      [''Quantify achievements with metrics when possible'',
       ''Research the company more thoroughly before the interview'',
       ''Prepare more concise responses to common questions''] =
      [''Review your resume and add specific numbers and percentages to your achievements'',
       ''Spend at least one hour researching the company's products, culture, and recent news'',
       ''Practice limiting your answers to 1-2 minutes for most questions'']"
    by (simp add: generateRecommendations_def recommendationFor_def recommendationMap_def
        genericRecommendations_def)
  have a: "analyzeAnswers [] kws = []" for kws
    by (simp add: analyzeAnswers_def)
  show ?thesis
    unfolding generatePerformanceReport_eq a calculateScores_empty
    by (simp add: s i r generateFallbackReport_def)
qed

subsection \<open>The exported operations on run-time values\<close>




lemma receiver_simps:
  "receiver (Val x) = Inr x" "receiver Null = Inl TypeError" "receiver Undefined = Inl TypeError"
  by (simp_all add: receiver_def)

lemma receiver_missing: "missing v \<Longrightarrow> receiver v = Inl TypeError"
  by (cases v) (simp_all add: missing_def receiver_def)

















text \<open>An index drawn for a non-empty array is in range, so the array reads of
  \<open>generateFeedback\<close> and \<open>generateFollowUpQuestion\<close> never yield \<^verbatim>\<open>undefined\<close>.\<close>

lemma randomIndex_less:
  assumes "0 < n"
  shows "randomIndex draw n < n"
proof -
  have "0 \<le> frac draw" and "frac draw < 1"
    by (simp_all add: frac_lt_1)
  with assms have nonneg: "0 \<le> frac draw * of_nat n"
    and less: "frac draw * of_nat n < of_nat n"
    by simp_all
  from less have "\<lfloor>frac draw * of_nat n\<rfloor> < int n"
    by (simp add: floor_less_iff)
  moreover from nonneg have "0 \<le> \<lfloor>frac draw * of_nat n\<rfloor>" by simp
  ultimately show ?thesis
    by (simp add: randomIndex_def Math_random_def nat_less_iff)
qed




lemma generatePerformanceReport_untyped_raises:
  "missing interviewData \<Longrightarrow>
   generatePerformanceReport_untyped rt rc rp jobTitle jobDescription interviewData =
     Inl TypeError"
  by (cases jobDescription)
    (simp_all add: generatePerformanceReport_untyped_def generateFallbackReport_untyped_def
      receiver_simps receiver_missing try_catch_def Let_def)

end
